theory Spec2Isabelle
  imports Main "HOL-Library.Word" "HOL-Library.AList" "HOL-Library.Monad_Syntax"
begin

unbundle bit_operations_syntax

section \<open>Data model (angelscript\_system.h, angelscript\_system.cpp, as\_script.h)\<close>

text \<open>
  An \<open>EntityRef\<close> wraps one 32-bit \<open>int index\<close>; a \<open>Path\<close> is its text; a \<open>StableHash\<close> is
  the 64-bit hash of a property name. The hash function itself belongs to the host engine
  and is a parameter (\<open>hash\<close>) of the operations that use it.
\<close>

type_synonym EntityRef = "32 word"
type_synonym Path = string
type_synonym StableHash = "64 word"

text \<open>Failed \<open>ASSERT\<close>s and the failed bounds checks of the host containers, as values.\<close>

datatype error =
    ASSERT_not_in_progress
  | ASSERT_in_progress
  | ASSERT_out_length
  | HashMap_key_not_found
  | Array_index_out_of_bounds

text \<open>\<open>AngelScriptModule::Property\<close>. The fields \<open>name_hash_legacy\<close> and
  \<open>resource_type\<close> are neither written nor serialized by the operations below and are
  left out. The constructor \<open>INT\<close> is written \<open>Property_Type.INT\<close> in terms.\<close>

datatype Property_Type = BOOLEAN | FLOAT | INT | ENTITY | RESOURCE | STRING | COLOR | ANY

record Property =
  name_hash :: StableHash
  type :: Property_Type
  stored_value :: string

subsection \<open>The scripting VM (external collaborator)\<close>

text \<open>
  The VM is used through \<open>GetModule\<close>, \<open>Discard\<close>, \<open>AddScriptSection\<close>, \<open>Build\<close>,
  \<open>GetFunctionByName\<close>, \<open>CreateContext\<close>, \<open>Prepare\<close> and \<open>Execute\<close>. What it answers is
  a parameter: the return code of adding a section, the return code of building a list
  of sections, and the names of the functions a built list of sections declares.
\<close>

record asIScriptEngine =
  AddScriptSection_code :: "string \<Rightarrow> string \<Rightarrow> int"
  Build_code :: "(string \<times> string) list \<Rightarrow> int"
  declared_functions :: "(string \<times> string) list \<Rightarrow> string list"

text \<open>A module handle is modelled by the content of the module: the sections added to
  it and the functions its last successful build declared. A context handle is modelled
  by the list of functions that were prepared and executed on it.\<close>

record asIScriptModule =
  sections :: "(string \<times> string) list"
  module_functions :: "string list"

record asIScriptContext =
  executed :: "string list"

definition GetModule :: asIScriptModule where
  \<comment> \<open>\<open>engine->GetModule(name, asGM_CREATE_IF_NOT_EXISTS)\<close> for a name with no live module\<close>
  "GetModule = \<lparr>sections = [], module_functions = []\<rparr>"

definition CreateContext :: asIScriptContext where
  "CreateContext = \<lparr>executed = []\<rparr>"

definition AddScriptSection ::
  "asIScriptEngine \<Rightarrow> string \<Rightarrow> string \<Rightarrow> asIScriptModule \<Rightarrow> int \<times> asIScriptModule" where
  "AddScriptSection engine name code m =
     (let r = AddScriptSection_code engine name code
      in (r, if r < 0 then m else m\<lparr>sections := sections m @ [(name, code)]\<rparr>))"

definition Build :: "asIScriptEngine \<Rightarrow> asIScriptModule \<Rightarrow> int \<times> asIScriptModule" where
  "Build engine m =
     (let r = Build_code engine (sections m)
      in (r, if r < 0 then m\<lparr>module_functions := []\<rparr>
             else m\<lparr>module_functions := declared_functions engine (sections m)\<rparr>))"

definition GetFunctionByName :: "asIScriptModule \<Rightarrow> string \<Rightarrow> string option" where
  "GetFunctionByName m name = (if name \<in> set (module_functions m) then Some name else None)"

definition Prepare_Execute :: "asIScriptContext \<Rightarrow> string \<Rightarrow> asIScriptContext" where
  \<comment> \<open>\<open>ctx->Prepare(func); ctx->Execute();\<close>\<close>
  "Prepare_Execute ctx func = ctx\<lparr>executed := executed ctx @ [func]\<rparr>"

subsection \<open>The resource manager (external collaborator)\<close>

text \<open>
  Modelled from the spec: the resource-loading subsystem, which is not part of this
  repository. A resource is identified by its path (the manager dedupes by path), is
  reference-counted, and is in one of the load states; loading is asynchronous, so
  \<open>load\<close> only takes a reference; releasing the last reference unloads the resource.
  Observers are counted per (resource, component).
\<close>

datatype State = EMPTY | READY | FAILURE

record ResourceManagerHub =
  ref_count :: "Path \<Rightarrow> nat"
  state :: "Path \<Rightarrow> State"
  source_code :: "Path \<Rightarrow> string"
  observers :: "Path \<Rightarrow> EntityRef \<Rightarrow> nat"

definition rm_load :: "Path \<Rightarrow> ResourceManagerHub \<Rightarrow> ResourceManagerHub" where
  "rm_load p rm = rm\<lparr>ref_count := (ref_count rm)(p := ref_count rm p + 1)\<rparr>"

definition decRefCount :: "Path \<Rightarrow> ResourceManagerHub \<Rightarrow> ResourceManagerHub" where
  "decRefCount p rm =
     (let n = ref_count rm p - 1
      in rm\<lparr>ref_count := (ref_count rm)(p := n),
            state := (if n = 0 then (state rm)(p := EMPTY) else state rm)\<rparr>)"

definition cb_bind :: "Path \<Rightarrow> EntityRef \<Rightarrow> ResourceManagerHub \<Rightarrow> ResourceManagerHub" where
  "cb_bind p e rm = rm\<lparr>observers := (observers rm)(p := (observers rm p)(e := observers rm p e + 1))\<rparr>"

definition cb_unbind :: "Path \<Rightarrow> EntityRef \<Rightarrow> ResourceManagerHub \<Rightarrow> ResourceManagerHub" where
  "cb_unbind p e rm = rm\<lparr>observers := (observers rm)(p := (observers rm p)(e := observers rm p e - 1))\<rparr>"

subsection \<open>Script instances and components\<close>

text \<open>\<open>ScriptInstance::Flags\<close>.\<close>

definition NONE :: "32 word" where "NONE = 0"
definition ENABLED :: "32 word" where "ENABLED = push_bit 0 1"
definition LOADED :: "32 word" where "LOADED = push_bit 1 1"
definition MOVED_FROM :: "32 word" where "MOVED_FROM = push_bit 2 1"

text \<open>A null pointer is \<open>None\<close>. \<open>m_script\<close> points to the resource, which is identified
  by its path. The back-reference \<open>m_cmp\<close> is the component that holds the instance.\<close>

record ScriptEnvironment =
  m_script_module :: "asIScriptModule option"
  m_script_context :: "asIScriptContext option"

record ScriptInstance = ScriptEnvironment +
  m_script :: "Path option"
  m_module_name :: nat
  m_properties :: "Property list"
  m_flags :: "32 word"

record InlineScriptComponent = ScriptEnvironment +
  m_entity :: EntityRef
  m_source :: string

record ScriptComponent =
  m_scripts :: "ScriptInstance list"
  m_entity :: EntityRef

datatype World = World

text \<open>\<open>FunctionCall\<close>; its field \<open>context\<close> is \<open>call_context\<close> here.\<close>

record FunctionCall =
  world :: "World option"
  parameter_count :: "32 word"
  module :: "asIScriptModule option"
  call_context :: "asIScriptContext option"
  is_in_progress :: bool

text \<open>The module. The two hash maps are association lists in iteration order; the
  resource manager reached through \<open>m_system.m_engine_ref\<close> and the two static
  \<open>module_counter\<close>s are part of the state.\<close>

record AngelScriptModuleImpl =
  m_scripts :: "(EntityRef \<times> ScriptComponent) list"
  m_inline_scripts :: "(EntityRef \<times> InlineScriptComponent) list"
  m_function_call :: FunctionCall
  m_is_game_running :: bool
  resource_manager :: ResourceManagerHub
  module_counter :: nat
  inline_module_counter :: nat

text \<open>\<open>Array::operator[]\<close> and \<open>HashMap::operator[]\<close> of the host: a failed bounds or
  key check is an error value.\<close>

definition Array_at :: "'a list \<Rightarrow> int \<Rightarrow> error + 'a" where
  "Array_at xs i = (if 0 \<le> i \<and> i < int (length xs) then Inr (xs ! nat i)
                    else Inl Array_index_out_of_bounds)"

definition HashMap_at :: "('k \<times> 'v) list \<Rightarrow> 'k \<Rightarrow> error + 'v" where
  "HashMap_at m k = (case map_of m k of None \<Rightarrow> Inl HashMap_key_not_found | Some v \<Rightarrow> Inr v)"

section \<open>Function-call protocol\<close>

definition beginFunctionCall_env ::
  "'a ScriptEnvironment_scheme \<Rightarrow> string \<Rightarrow> AngelScriptModuleImpl
     \<Rightarrow> FunctionCall option \<times> AngelScriptModuleImpl" where
  "beginFunctionCall_env env function s =
     (case m_script_module env of None \<Rightarrow> (None, s)
      | Some m \<Rightarrow>
     (case m_script_context env of None \<Rightarrow> (None, s)
      | Some c \<Rightarrow>
     (case GetFunctionByName m function of None \<Rightarrow> (None, s)
      | Some func \<Rightarrow>
          let fc = (m_function_call s)
                     \<lparr>call_context := Some c, module := Some m, world := Some World,
                      is_in_progress := True, parameter_count := 0\<rparr>
          in (Some fc, s\<lparr>m_function_call := fc\<rparr>))))"

definition beginFunctionCallInlineScript ::
  "EntityRef \<Rightarrow> string \<Rightarrow> AngelScriptModuleImpl
     \<Rightarrow> error + (FunctionCall option \<times> AngelScriptModuleImpl)" where
  "beginFunctionCallInlineScript entity function s =
     (if is_in_progress (m_function_call s) then Inl ASSERT_not_in_progress
      else case map_of (m_inline_scripts s) entity of
             None \<Rightarrow> Inr (None, s)
           | Some script \<Rightarrow> Inr (beginFunctionCall_env script function s))"

definition beginFunctionCall ::
  "EntityRef \<Rightarrow> int \<Rightarrow> string \<Rightarrow> AngelScriptModuleImpl
     \<Rightarrow> error + (FunctionCall option \<times> AngelScriptModuleImpl)" where
  "beginFunctionCall entity scr_index function s =
     (if is_in_progress (m_function_call s) then Inl ASSERT_not_in_progress
      else case map_of (m_scripts s) entity of
             None \<Rightarrow> Inr (None, s)
           | Some script_cmp \<Rightarrow>
               (case Array_at (ScriptComponent.m_scripts script_cmp) scr_index of
                  Inl e \<Rightarrow> Inl e
                | Inr script \<Rightarrow> Inr (beginFunctionCall_env script function s)))"

definition endFunctionCall :: "AngelScriptModuleImpl \<Rightarrow> error + AngelScriptModuleImpl" where
  "endFunctionCall s =
     (if \<not> is_in_progress (m_function_call s) then Inl ASSERT_in_progress
      else Inr (s\<lparr>m_function_call := (m_function_call s)\<lparr>is_in_progress := False\<rparr>\<rparr>))"

definition FunctionCall_add :: "AngelScriptModuleImpl \<Rightarrow> AngelScriptModuleImpl" where
  \<comment> \<open>every \<open>add\<close> overload: \<open>++parameter_count\<close>\<close>
  "FunctionCall_add s =
     s\<lparr>m_function_call :=
         (m_function_call s)\<lparr>parameter_count := parameter_count (m_function_call s) + 1\<rparr>\<rparr>"

text \<open>The way the callers in the editor plugin use the protocol:
  \<open>if (module->beginFunctionCall(e, i, "onGUI")) { ... module->endFunctionCall(); }\<close>.
  A call names its target (a script slot or an inline script), the function, and how
  many parameters are pushed between begin and end.\<close>

datatype call_target = Slot EntityRef int | Inline EntityRef

fun begin_call ::
  "call_target \<Rightarrow> string \<Rightarrow> AngelScriptModuleImpl
     \<Rightarrow> error + (FunctionCall option \<times> AngelScriptModuleImpl)" where
  "begin_call (Slot e i) f s = beginFunctionCall e i f s"
| "begin_call (Inline e) f s = beginFunctionCallInlineScript e f s"

definition guarded_call ::
  "call_target \<times> string \<times> nat \<Rightarrow> AngelScriptModuleImpl \<Rightarrow> error + AngelScriptModuleImpl" where
  "guarded_call c s =
     (case c of (target, f, n) \<Rightarrow>
        (case begin_call target f s of
           Inl e \<Rightarrow> Inl e
         | Inr (None, s') \<Rightarrow> Inr s'
         | Inr (Some fc, s') \<Rightarrow> endFunctionCall ((FunctionCall_add ^^ n) s')))"

fun run_calls ::
  "(call_target \<times> string \<times> nat) list \<Rightarrow> AngelScriptModuleImpl
     \<Rightarrow> error + AngelScriptModuleImpl" where
  "run_calls [] s = Inr s"
| "run_calls (c # cs) s =
     (case guarded_call c s of Inl e \<Rightarrow> Inl e | Inr s' \<Rightarrow> run_calls cs s')"

section \<open>Script instance life cycle\<close>

definition ScriptInstance_new :: "nat \<Rightarrow> ScriptInstance" where
  \<comment> \<open>the constructor; the argument is the value of the static \<open>module_counter\<close>\<close>
  "ScriptInstance_new counter =
     \<lparr>m_script_module = Some GetModule, m_script_context = Some CreateContext,
      m_script = None, m_module_name = counter, m_properties = [],
      m_flags = NONE OR ENABLED\<rparr>"

definition InlineScriptComponent_new :: "EntityRef \<Rightarrow> InlineScriptComponent" where
  "InlineScriptComponent_new entity =
     \<lparr>m_script_module = Some GetModule, m_script_context = Some CreateContext,
      InlineScriptComponent.m_entity = entity, m_source = []\<rparr>"


definition onScriptUnloaded :: "ScriptInstance \<Rightarrow> ScriptInstance" where
  "onScriptUnloaded inst =
     (let inst1 = (case m_script_module inst of
                     Some m \<Rightarrow> inst\<lparr>m_script_module := None\<rparr>
                   | None \<Rightarrow> inst)
      in inst1\<lparr>m_flags := m_flags inst1 AND NOT LOADED\<rparr>)"

text \<open>\<open>ScriptInstance::onScriptLoaded\<close>. The resource is read through the manager:
  \<open>getPath()\<close> is the path that identifies it and \<open>getSourceCode()\<close> its source. Discarding
  the old module and asking for the module of the same name gives an empty module.\<close>

definition onScriptLoaded ::
  "asIScriptEngine \<Rightarrow> ResourceManagerHub \<Rightarrow> ScriptInstance \<Rightarrow> ScriptInstance" where
  "onScriptLoaded engine rm inst =
     (case m_script inst of
        None \<Rightarrow> inst
      | Some path \<Rightarrow>
          let inst1 = inst\<lparr>m_script_module := Some GetModule\<rparr>;
              is_reload = (m_flags inst1 AND LOADED \<noteq> 0);
              source = source_code rm path;
              (r, m1) = AddScriptSection engine path source GetModule;
              inst2 = inst1\<lparr>m_script_module := Some m1\<rparr>
          in if r < 0 then inst2
             else
               let (r', m2) = Build engine m1;
                   inst3 = inst2\<lparr>m_script_module := Some m2\<rparr>
               in if r' < 0 then inst3
                  else
                    let inst4 = inst3\<lparr>m_flags := m_flags inst3 OR LOADED\<rparr>
                    in (case (GetFunctionByName m2 ''awake'', m_script_context inst4) of
                          (Some awake_func, Some ctx) \<Rightarrow>
                            inst4\<lparr>m_script_context := Some (Prepare_Execute ctx awake_func)\<rparr>
                        | _ \<Rightarrow> inst4))"

text \<open>\<open>ScriptComponent::onScriptLoaded\<close>: each iteration of the loop touches only its own
  slot.\<close>

definition ScriptComponent_onScriptLoaded ::
  "asIScriptEngine \<Rightarrow> ResourceManagerHub \<Rightarrow> State \<Rightarrow> State \<Rightarrow> Path
     \<Rightarrow> ScriptComponent \<Rightarrow> ScriptComponent" where
  "ScriptComponent_onScriptLoaded engine rm old_state new_state resource cmp =
     cmp\<lparr>ScriptComponent.m_scripts :=
           map (\<lambda>script.
                  if m_script script = None then script
                  else if m_script script \<noteq> Some resource then script
                  else if new_state = READY then onScriptLoaded engine rm script
                  else if new_state = EMPTY then onScriptUnloaded script
                  else script)
               (ScriptComponent.m_scripts cmp)\<rparr>"

text \<open>\<open>setPath(cmp, inst, path)\<close>; \<open>inst\<close> is the slot \<open>i\<close> of \<open>cmp\<close> at both call sites.
  Modelled from the spec: \<open>Resource::onLoaded\<close> of the host subscribes the observer (the
  state-change notification) and, the resource being already \<open>READY\<close>, notifies it at
  once, so that compilation happens synchronously in the call.\<close>

definition setPath ::
  "asIScriptEngine \<Rightarrow> ScriptComponent \<Rightarrow> nat \<Rightarrow> Path \<Rightarrow> ResourceManagerHub
     \<Rightarrow> ScriptComponent \<times> ResourceManagerHub" where
  "setPath engine cmp i path rm =
     (let inst = ScriptComponent.m_scripts cmp ! i;
          rm1 = (case m_script inst of
                   None \<Rightarrow> rm
                 | Some old \<Rightarrow> decRefCount old (cb_unbind old (ScriptComponent.m_entity cmp) rm));
          scr = (if path = [] then None else Some path);
          rm2 = (if path = [] then rm1 else rm_load path rm1);
          cmp1 = cmp\<lparr>ScriptComponent.m_scripts :=
                       (ScriptComponent.m_scripts cmp)[i := inst\<lparr>m_script := scr\<rparr>]\<rparr>
      in case scr of
           None \<Rightarrow> (cmp1, rm2)
         | Some p \<Rightarrow>
             let rm3 = cb_bind p (ScriptComponent.m_entity cmp) rm2
             in if state rm3 p = READY
                then (ScriptComponent_onScriptLoaded engine rm3 READY READY p cmp1, rm3)
                else (cmp1, rm3))"

section \<open>Per-slot operations of the module\<close>

definition getScriptPath :: "EntityRef \<Rightarrow> int \<Rightarrow> AngelScriptModuleImpl \<Rightarrow> error + Path" where
  "getScriptPath entity scr_index s =
     (case HashMap_at (m_scripts s) entity of
        Inl e \<Rightarrow> Inl e
      | Inr script_cmp \<Rightarrow>
          (case Array_at (ScriptComponent.m_scripts script_cmp) scr_index of
             Inl e \<Rightarrow> Inl e
           | Inr tmp \<Rightarrow> Inr (case m_script tmp of Some p \<Rightarrow> p | None \<Rightarrow> [])))"

text \<open>\<open>setScriptPath\<close>: the guard \<open>size() <= scr_index\<close> is taken on the values of the
  two integers.\<close>

definition setScriptPath ::
  "asIScriptEngine \<Rightarrow> EntityRef \<Rightarrow> int \<Rightarrow> Path \<Rightarrow> AngelScriptModuleImpl
     \<Rightarrow> error + AngelScriptModuleImpl" where
  "setScriptPath engine entity scr_index path s =
     (case HashMap_at (m_scripts s) entity of
        Inl e \<Rightarrow> Inl e
      | Inr script_cmp \<Rightarrow>
          if int (length (ScriptComponent.m_scripts script_cmp)) \<le> scr_index then Inr s
          else
            (case Array_at (ScriptComponent.m_scripts script_cmp) scr_index of
               Inl e \<Rightarrow> Inl e
             | Inr inst \<Rightarrow>
                 let (cmp', rm') =
                       setPath engine script_cmp (nat scr_index) path (resource_manager s)
                 in Inr (s\<lparr>m_scripts := AList.update entity cmp' (m_scripts s),
                           resource_manager := rm'\<rparr>)))"

definition setFlag :: "32 word \<Rightarrow> 32 word \<Rightarrow> bool \<Rightarrow> 32 word" where
  "setFlag flags flag v = (if v then flags OR flag else flags AND NOT flag)"

definition enableScript ::
  "EntityRef \<Rightarrow> int \<Rightarrow> bool \<Rightarrow> AngelScriptModuleImpl \<Rightarrow> error + AngelScriptModuleImpl" where
  "enableScript entity scr_index enable s =
     (case HashMap_at (m_scripts s) entity of
        Inl e \<Rightarrow> Inl e
      | Inr script_cmp \<Rightarrow>
          (case Array_at (ScriptComponent.m_scripts script_cmp) scr_index of
             Inl e \<Rightarrow> Inl e
           | Inr inst \<Rightarrow>
               let inst' = inst\<lparr>m_flags := setFlag (m_flags inst) ENABLED enable\<rparr>;
                   cmp' = script_cmp\<lparr>ScriptComponent.m_scripts :=
                            (ScriptComponent.m_scripts script_cmp)[nat scr_index := inst']\<rparr>
               in Inr (s\<lparr>m_scripts := AList.update entity cmp' (m_scripts s)\<rparr>)))"

definition isScriptEnabled :: "EntityRef \<Rightarrow> int \<Rightarrow> AngelScriptModuleImpl \<Rightarrow> error + bool" where
  "isScriptEnabled entity scr_index s =
     (case HashMap_at (m_scripts s) entity of
        Inl e \<Rightarrow> Inl e
      | Inr script_cmp \<Rightarrow>
          (case Array_at (ScriptComponent.m_scripts script_cmp) scr_index of
             Inl e \<Rightarrow> Inl e
           | Inr inst \<Rightarrow> Inr (m_flags inst AND ENABLED \<noteq> 0)))"

text \<open>\<open>execute\<close>: the module and the context are reached through the instance's pointers,
  so the instance is updated although it is taken by const reference. The function
  looked up by \<open>GetFunctionByDecl("void main()")\<close> is the function \<open>main\<close>.\<close>

definition execute_instance ::
  "asIScriptEngine \<Rightarrow> (string \<Rightarrow> bool) \<Rightarrow> string \<Rightarrow> ScriptInstance \<Rightarrow> bool \<times> ScriptInstance" where
  \<comment> \<open>\<open>finished f\<close>: whether executing \<open>f\<close> returns \<open>asEXECUTION_FINISHED\<close>\<close>
  "execute_instance engine finished code script =
     (case m_script_module script of None \<Rightarrow> (False, script)
      | Some m \<Rightarrow>
     (case m_script_context script of None \<Rightarrow> (False, script)
      | Some ctx \<Rightarrow>
          let (r, m1) = AddScriptSection engine ''temp'' code m;
              script1 = script\<lparr>m_script_module := Some m1\<rparr>
          in if r < 0 then (False, script1)
             else
               let (r', m2) = Build engine m1;
                   script2 = script1\<lparr>m_script_module := Some m2\<rparr>
               in if r' < 0 then (False, script2)
                  else if ''main'' \<in> set (module_functions m2)
                  then (finished ''main'',
                        script2\<lparr>m_script_context := Some (Prepare_Execute ctx ''main'')\<rparr>)
                  else (True, script2)))"

section \<open>Properties\<close>

fun find_property :: "StableHash \<Rightarrow> Property list \<Rightarrow> nat option" where
  \<comment> \<open>the loop \<open>for (auto& prop : m_properties) if (prop.name_hash == hash) ...\<close>: the
     index of the first property with the hash\<close>
  "find_property h [] = None"
| "find_property h (prop # props) =
     (if name_hash prop = h then Some 0 else map_option Suc (find_property h props))"

text \<open>\<open>getScriptProperty\<close> returns a reference into the property list: here the index
  of the property, with the updated module.\<close>

definition getScriptProperty ::
  "(string \<Rightarrow> StableHash) \<Rightarrow> EntityRef \<Rightarrow> int \<Rightarrow> string \<Rightarrow> AngelScriptModuleImpl
     \<Rightarrow> error + (nat \<times> AngelScriptModuleImpl)" where
  "getScriptProperty hash entity scr_index name s =
     (let name_hash = hash name in
      case HashMap_at (m_scripts s) entity of
        Inl e \<Rightarrow> Inl e
      | Inr script_cmp \<Rightarrow>
          (case Array_at (ScriptComponent.m_scripts script_cmp) scr_index of
             Inl e \<Rightarrow> Inl e
           | Inr inst \<Rightarrow>
               (case find_property name_hash (m_properties inst) of
                  Some k \<Rightarrow> Inr (k, s)
                | None \<Rightarrow>
                    let prop = \<lparr>name_hash = name_hash, type = ANY, stored_value = []\<rparr>;
                        inst' = inst\<lparr>m_properties := m_properties inst @ [prop]\<rparr>;
                        cmp' = script_cmp\<lparr>ScriptComponent.m_scripts :=
                                 (ScriptComponent.m_scripts script_cmp)[nat scr_index := inst']\<rparr>
                    in Inr (length (m_properties inst),
                            s\<lparr>m_scripts := AList.update entity cmp' (m_scripts s)\<rparr>))))"

text \<open>\<open>setPropertyValue\<close>: the map never holds a null component, so the branch
  \<open>if (!script_cmp) return\<close> is not taken; a missing entity fails in
  \<open>HashMap::operator[]\<close>.\<close>

definition setPropertyValue ::
  "(string \<Rightarrow> StableHash) \<Rightarrow> EntityRef \<Rightarrow> int \<Rightarrow> string \<Rightarrow> string \<Rightarrow> AngelScriptModuleImpl
     \<Rightarrow> error + AngelScriptModuleImpl" where
  "setPropertyValue hash entity scr_index name val s =
     (case HashMap_at (m_scripts s) entity of
        Inl e \<Rightarrow> Inl e
      | Inr _ \<Rightarrow>
          (case getScriptProperty hash entity scr_index name s of
             Inl e \<Rightarrow> Inl e
           | Inr (k, s1) \<Rightarrow>
               (case HashMap_at (m_scripts s1) entity of
                  Inl e \<Rightarrow> Inl e
                | Inr script_cmp \<Rightarrow>
                    let scripts = ScriptComponent.m_scripts script_cmp;
                        inst = scripts ! nat scr_index;
                        props = m_properties inst;
                        inst' = inst\<lparr>m_properties := props[k := (props ! k)\<lparr>stored_value := val\<rparr>]\<rparr>;
                        cmp' = script_cmp\<lparr>ScriptComponent.m_scripts :=
                                 scripts[nat scr_index := inst']\<rparr>
                    in Inr (s1\<lparr>m_scripts := AList.update entity cmp' (m_scripts s1)\<rparr>))))"

definition copyString :: "nat \<Rightarrow> string \<Rightarrow> string" where
  \<comment> \<open>\<open>copyString(Span<char> out, ...)\<close> of the host: the C string left in a buffer of
     \<open>n\<close> characters, one of them the terminator\<close>
  "copyString n src = take (n - 1) src"

text \<open>\<open>getPropertyValue\<close>: the result is the C string left in \<open>out\<close> (a buffer of
  \<open>out_length\<close> characters) and the module after the call.\<close>

definition getPropertyValue ::
  "(string \<Rightarrow> StableHash) \<Rightarrow> EntityRef \<Rightarrow> int \<Rightarrow> string \<Rightarrow> nat \<Rightarrow> AngelScriptModuleImpl
     \<Rightarrow> error + (string \<times> AngelScriptModuleImpl)" where
  "getPropertyValue hash entity scr_index property_name out_length s =
     (if \<not> out_length > 0 then Inl ASSERT_out_length
      else
        let h = hash property_name in
        case HashMap_at (m_scripts s) entity of
          Inl e \<Rightarrow> Inl e
        | Inr script_cmp \<Rightarrow>
            (case Array_at (ScriptComponent.m_scripts script_cmp) scr_index of
               Inl e \<Rightarrow> Inl e
             | Inr inst \<Rightarrow>
                 (case find_property h (m_properties inst) of
                    Some k \<Rightarrow> Inr (copyString out_length (stored_value (m_properties inst ! k)), s)
                  | None \<Rightarrow> Inr ([], s))))"

section \<open>Serialization\<close>

text \<open>
  The byte encoding of \<open>OutputMemoryStream\<close> and \<open>InputMemoryStream\<close> belongs to the host.
  A stream is the list of the items written, each with the kind of the \<open>write\<close> that
  produced it: a 32-bit integer (counts, written from an unsigned size and read back as
  a signed \<open>int\<close>), an entity, a \<open>String\<close> object, a string written by \<open>writeString\<close>, a
  flag set, a name hash, a property type. A read of one kind fails on any other item.
\<close>

datatype blob_item =
    B_i32 "32 word"
  | B_entity EntityRef
  | B_String string
  | B_cstr string
  | B_flags "32 word"
  | B_hash StableHash
  | B_type Property_Type

type_synonym blob = "blob_item list"

definition write_size :: "nat \<Rightarrow> blob \<Rightarrow> blob" where
  "write_size n out = out @ [B_i32 (of_nat n)]"

definition write_entity :: "EntityRef \<Rightarrow> blob \<Rightarrow> blob" where
  "write_entity e out = out @ [B_entity e]"

definition write_String :: "string \<Rightarrow> blob \<Rightarrow> blob" where
  "write_String str out = out @ [B_String str]"

definition writeString :: "string \<Rightarrow> blob \<Rightarrow> blob" where
  "writeString str out = out @ [B_cstr str]"

definition write_flags :: "32 word \<Rightarrow> blob \<Rightarrow> blob" where
  "write_flags f out = out @ [B_flags f]"

definition write_hash :: "StableHash \<Rightarrow> blob \<Rightarrow> blob" where
  "write_hash h out = out @ [B_hash h]"

definition write_type :: "Property_Type \<Rightarrow> blob \<Rightarrow> blob" where
  "write_type t out = out @ [B_type t]"

fun serialize_properties :: "Property list \<Rightarrow> blob \<Rightarrow> blob" where
  "serialize_properties [] out = out"
| "serialize_properties (prop # props) out =
     serialize_properties props
       (writeString (stored_value prop) (write_type (type prop) (write_hash (name_hash prop) out)))"

fun serialize_scripts :: "ScriptInstance list \<Rightarrow> blob \<Rightarrow> blob" where
  "serialize_scripts [] out = out"
| "serialize_scripts (scr # scrs) out =
     serialize_scripts scrs
       (serialize_properties (m_properties scr)
          (write_size (length (m_properties scr))
             (write_flags (m_flags scr)
                (writeString (case m_script scr of Some p \<Rightarrow> p | None \<Rightarrow> []) out))))"

fun serialize_components :: "(EntityRef \<times> ScriptComponent) list \<Rightarrow> blob \<Rightarrow> blob" where
  "serialize_components [] out = out"
| "serialize_components ((key, script_cmp) # cmps) out =
     serialize_components cmps
       (serialize_scripts (ScriptComponent.m_scripts script_cmp)
          (write_size (length (ScriptComponent.m_scripts script_cmp))
             (write_entity (ScriptComponent.m_entity script_cmp) out)))"

fun serialize_inline :: "(EntityRef \<times> InlineScriptComponent) list \<Rightarrow> blob \<Rightarrow> blob" where
  "serialize_inline [] out = out"
| "serialize_inline ((key, inl) # rest) out =
     serialize_inline rest (write_String (m_source inl) (write_entity key out))"

definition serialize :: "AngelScriptModuleImpl \<Rightarrow> blob \<Rightarrow> blob" where
  "serialize s serializer =
     serialize_components (m_scripts s)
       (write_size (length (m_scripts s))
          (serialize_inline (m_inline_scripts s)
             (write_size (length (m_inline_scripts s)) serializer)))"

text \<open>The write order in the words of the specification, as one list per level.\<close>

definition property_items :: "Property \<Rightarrow> blob" where
  "property_items prop = [B_hash (name_hash prop), B_type (type prop), B_cstr (stored_value prop)]"

definition slot_items :: "ScriptInstance \<Rightarrow> blob" where
  "slot_items scr =
     [B_cstr (case m_script scr of Some p \<Rightarrow> p | None \<Rightarrow> []),
      B_flags (m_flags scr),
      B_i32 (of_nat (length (m_properties scr)))]
     @ concat (map property_items (m_properties scr))"

definition component_items :: "ScriptComponent \<Rightarrow> blob" where
  "component_items script_cmp =
     [B_entity (ScriptComponent.m_entity script_cmp),
      B_i32 (of_nat (length (ScriptComponent.m_scripts script_cmp)))]
     @ concat (map slot_items (ScriptComponent.m_scripts script_cmp))"

definition inline_items :: "EntityRef \<times> InlineScriptComponent \<Rightarrow> blob" where
  "inline_items kv = [B_entity (fst kv), B_String (m_source (snd kv))]"

definition write_order :: "AngelScriptModuleImpl \<Rightarrow> blob" where
  "write_order s =
     [B_i32 (of_nat (length (m_inline_scripts s)))]
     @ concat (map inline_items (m_inline_scripts s))
     @ [B_i32 (of_nat (length (m_scripts s)))]
     @ concat (map (\<lambda>kv. component_items (snd kv)) (m_scripts s))"

subsection \<open>Reading\<close>













text \<open>The constructor of the module: no components, no call in progress. The resource
  manager and the static counters are those of the process.\<close>

definition AngelScriptModuleImpl_new ::
  "ResourceManagerHub \<Rightarrow> nat \<Rightarrow> nat \<Rightarrow> AngelScriptModuleImpl" where
  "AngelScriptModuleImpl_new rm counter inline_counter =
     \<lparr>m_scripts = [], m_inline_scripts = [],
      m_function_call = \<lparr>world = None, parameter_count = 0, module = None,
                          call_context = None, is_in_progress = False\<rparr>,
      m_is_game_running = False, resource_manager = rm,
      module_counter = counter, inline_module_counter = inline_counter\<rparr>"

text \<open>What is compared before and after a round trip, per (entity, slot): the path
  (\<open>getScriptPath\<close>), the enabled flag (\<open>isScriptEnabled\<close>) and the properties.\<close>

definition slot_properties ::
  "EntityRef \<Rightarrow> int \<Rightarrow> AngelScriptModuleImpl \<Rightarrow> error + Property list" where
  "slot_properties entity scr_index s =
     (case HashMap_at (m_scripts s) entity of
        Inl e \<Rightarrow> Inl e
      | Inr script_cmp \<Rightarrow>
          (case Array_at (ScriptComponent.m_scripts script_cmp) scr_index of
             Inl e \<Rightarrow> Inl e
           | Inr inst \<Rightarrow> Inr (m_properties inst)))"









section \<open>The operations of one script instance\<close>

text \<open>Everything that is done to a constructed instance: the two notifications, the
  writes of \<open>m_script\<close> (\<open>setPath\<close>), of \<open>m_flags\<close> (\<open>enableScript\<close>, \<open>deserialize\<close>) and of
  \<open>m_properties\<close> (\<open>getScriptProperty\<close>, \<open>setPropertyValue\<close>, \<open>deserialize\<close>), and
  \<open>execute\<close>.\<close>

datatype instance_op =
    OnScriptLoaded ResourceManagerHub
  | OnScriptUnloaded
  | SetScript "Path option"
  | SetFlags "32 word"
  | SetProperties "Property list"
  | Execute string

fun apply_op :: "asIScriptEngine \<Rightarrow> instance_op \<Rightarrow> ScriptInstance \<Rightarrow> ScriptInstance" where
  "apply_op engine (OnScriptLoaded rm) inst = onScriptLoaded engine rm inst"
| "apply_op engine OnScriptUnloaded inst = onScriptUnloaded inst"
| "apply_op engine (SetScript scr) inst = inst\<lparr>m_script := scr\<rparr>"
| "apply_op engine (SetFlags f) inst = inst\<lparr>m_flags := f\<rparr>"
| "apply_op engine (SetProperties props) inst = inst\<lparr>m_properties := props\<rparr>"
| "apply_op engine (Execute code) inst = snd (execute_instance engine (\<lambda>f. True) code inst)"

fun run_ops :: "asIScriptEngine \<Rightarrow> instance_op list \<Rightarrow> ScriptInstance \<Rightarrow> ScriptInstance" where
  "run_ops engine [] inst = inst"
| "run_ops engine (op # ops) inst = run_ops engine ops (apply_op engine op inst)"

section \<open>Script resource (as\_script.cpp)\<close>

text \<open>The buffer is a list of bytes (\<open>char\<close>). \<open>InputMemoryStream\<close> belongs to the host:
  \<open>read\<close> of a \<open>u32\<close> takes four bytes, little-endian, \<open>readString\<close> takes the bytes up to
  and including the next zero byte; both are undefined (\<open>None\<close>) when the buffer ends
  before. Loading a dependency takes a reference through the manager;
  \<open>addDependency\<close> is bookkeeping inside the host resource.\<close>

record ASScript =
  m_path :: Path
  m_dependencies :: "Path list"
  m_source_code :: string





definition unload :: "ASScript \<Rightarrow> ResourceManagerHub \<Rightarrow> ASScript \<times> ResourceManagerHub" where
  "unload scr rm =
     (scr\<lparr>m_dependencies := [], m_source_code := []\<rparr>, fold decRefCount (m_dependencies scr) rm)"


section \<open>Example values\<close>

definition example_engine :: asIScriptEngine where
  "example_engine =
     \<lparr>AddScriptSection_code = (\<lambda>name code. 0),
      Build_code = (\<lambda>ss. if (''bad.as'', ''void awake( {'') \<in> set ss then - 1 else 0),
      declared_functions = (\<lambda>ss. [''awake'', ''update''])\<rparr>"

definition example_rm :: ResourceManagerHub where
  "example_rm =
     \<lparr>ref_count = (\<lambda>p. if p = ''a.as'' then 1 else 0),
      state = (\<lambda>p. if p = ''a.as'' \<or> p = ''bad.as'' then READY else EMPTY),
      source_code = (\<lambda>p. if p = ''a.as'' then ''void awake() {}''
                          else if p = ''bad.as'' then ''void awake( {'' else []),
      observers = (\<lambda>p e. 0)\<rparr>"

definition example_hash :: "string \<Rightarrow> StableHash" where
  "example_hash name = of_nat (length name)"

definition example_instance :: ScriptInstance where
  "example_instance =
     \<lparr>m_script_module = Some \<lparr>sections = [(''a.as'', ''void awake() {}'')],
                               module_functions = [''awake'', ''update'']\<rparr>,
      m_script_context = Some \<lparr>executed = [''awake'']\<rparr>,
      m_script = Some ''a.as'', m_module_name = 0,
      m_properties = [\<lparr>name_hash = 5, type = ANY, stored_value = ''5''\<rparr>],
      m_flags = ENABLED OR LOADED\<rparr>"

definition example_component :: ScriptComponent where
  "example_component =
     \<lparr>ScriptComponent.m_scripts = [example_instance, (ScriptInstance_new 1)\<lparr>m_flags := NONE\<rparr>],
      ScriptComponent.m_entity = 1\<rparr>"

definition example_module :: AngelScriptModuleImpl where
  "example_module =
     (AngelScriptModuleImpl_new example_rm 2 1)
       \<lparr>m_scripts := [(1, example_component)],
        m_inline_scripts := [(2, (InlineScriptComponent_new 2)\<lparr>m_source := ''void main(){ }''\<rparr>)]\<rparr>"


definition busy_module :: AngelScriptModuleImpl where
  \<comment> \<open>the example module while a call is under construction\<close>
  "busy_module =
     example_module\<lparr>m_function_call := (m_function_call example_module)\<lparr>is_in_progress := True\<rparr>\<rparr>"

definition example_calls :: "(call_target \<times> string \<times> nat) list" where
  "example_calls = [(Slot 1 0, ''update'', 2), (Inline 2, ''main'', 0), (Slot 1 1, ''awake'', 0)]"

definition stale_instance :: ScriptInstance where
  "stale_instance = example_instance\<lparr>m_script := Some ''bad.as''\<rparr>"

definition fresh_bad_instance :: ScriptInstance where
  "fresh_bad_instance = (ScriptInstance_new 3)\<lparr>m_script := Some ''bad.as''\<rparr>"

definition example_ops :: "instance_op list" where
  "example_ops = [SetScript (Some ''a.as''), OnScriptLoaded example_rm, SetFlags NONE, Execute ''void main() {}'']"



text \<open>For the round trip: the view of a slot, the view a slot has once it is written and
  read back, the slot of an entity, and what one pass of the reading loops builds from
  a slot and from a component.\<close>

definition slot_view :: "ScriptInstance \<Rightarrow> Path \<times> bool \<times> Property list" where
  "slot_view inst =
     (case m_script inst of Some p \<Rightarrow> p | None \<Rightarrow> [],
      m_flags inst AND ENABLED \<noteq> 0,
      m_properties inst)"





section \<open>Evaluation of the example values\<close>

lemmas example_defs = example_module_def example_component_def example_instance_def
  AngelScriptModuleImpl_new_def InlineScriptComponent_new_def ScriptInstance_new_def
  GetModule_def CreateContext_def

section \<open>Function-call protocol: results\<close>

lemma beginFunctionCall_env_cases:
  fixes env :: "'a ScriptEnvironment_scheme"
  shows "(fst (beginFunctionCall_env env f s) = None \<and> snd (beginFunctionCall_env env f s) = s) \<or>
   (\<exists>fc. fst (beginFunctionCall_env env f s) = Some fc \<and>
      is_in_progress (m_function_call (snd (beginFunctionCall_env env f s))))"
  by (simp add: beginFunctionCall_env_def Let_def split: option.splits)

lemma beginFunctionCall_env_null_iff:
  fixes env :: "'a ScriptEnvironment_scheme"
  shows "fst (beginFunctionCall_env env f s) = None \<longleftrightarrow>
     (m_script_module env = None \<or> m_script_context env = None \<or>
      (\<exists>m. m_script_module env = Some m \<and> f \<notin> set (module_functions m)))"
  by (auto simp: beginFunctionCall_env_def GetFunctionByName_def Let_def split: option.splits)

text \<open>
  C5. \<open>beginFunctionCall\<close> on a target returns null exactly when the target has no VM
  module, no VM context, or its module has no function of that name; when it returns
  null the module, and with it the call builder and its in-progress state, is unchanged.
  This holds for the overload that takes the target and for the overload that takes an
  entity with a script component and a valid slot index (no call being in progress).
\<close>

theorem beginFunctionCall_null_exactly:
  fixes env :: "'a ScriptEnvironment_scheme"
  shows
  "(fst (beginFunctionCall_env env f s) = None \<longleftrightarrow>
      (m_script_module env = None \<or> m_script_context env = None \<or>
       (\<exists>m. m_script_module env = Some m \<and> f \<notin> set (module_functions m)))) \<and>
   (fst (beginFunctionCall_env env f s) = None \<longrightarrow> snd (beginFunctionCall_env env f s) = s) \<and>
   (map_of (m_scripts t) e = Some script_cmp \<and> 0 \<le> i \<and>
    i < int (length (ScriptComponent.m_scripts script_cmp)) \<and>
    \<not> is_in_progress (m_function_call t) \<longrightarrow>
      (\<exists>r t'. beginFunctionCall e i g t = Inr (r, t') \<and>
         (r = None \<longleftrightarrow>
            (m_script_module (ScriptComponent.m_scripts script_cmp ! nat i) = None \<or>
             m_script_context (ScriptComponent.m_scripts script_cmp ! nat i) = None \<or>
             (\<exists>m. m_script_module (ScriptComponent.m_scripts script_cmp ! nat i) = Some m \<and>
                  g \<notin> set (module_functions m)))) \<and>
         (r = None \<longrightarrow> m_function_call t' = m_function_call t \<and> t' = t)))"
proof (intro conjI impI)
  show "fst (beginFunctionCall_env env f s) = None \<longleftrightarrow>
      (m_script_module env = None \<or> m_script_context env = None \<or>
       (\<exists>m. m_script_module env = Some m \<and> f \<notin> set (module_functions m)))"
    by (rule beginFunctionCall_env_null_iff)
next
  assume "fst (beginFunctionCall_env env f s) = None"
  with beginFunctionCall_env_cases [of env f s]
  show "snd (beginFunctionCall_env env f s) = s" by auto
next
  assume a: "map_of (m_scripts t) e = Some script_cmp \<and> 0 \<le> i \<and>
    i < int (length (ScriptComponent.m_scripts script_cmp)) \<and>
    \<not> is_in_progress (m_function_call t)"
  let ?inst = "ScriptComponent.m_scripts script_cmp ! nat i"
  from a have eq: "beginFunctionCall e i g t = Inr (beginFunctionCall_env ?inst g t)"
    by (simp add: beginFunctionCall_def Array_at_def)
  obtain r t' where rt: "beginFunctionCall_env ?inst g t = (r, t')"
    by (cases "beginFunctionCall_env ?inst g t")
  from beginFunctionCall_env_null_iff [of ?inst g t] beginFunctionCall_env_cases [of ?inst g t] rt eq
  show "\<exists>r t'. beginFunctionCall e i g t = Inr (r, t') \<and>
         (r = None \<longleftrightarrow>
            (m_script_module ?inst = None \<or> m_script_context ?inst = None \<or>
             (\<exists>m. m_script_module ?inst = Some m \<and> g \<notin> set (module_functions m)))) \<and>
         (r = None \<longrightarrow> m_function_call t' = m_function_call t \<and> t' = t)"
    by auto
qed

theorem beginFunctionCall_null_exactly_witness:
  "fst (beginFunctionCall_env example_instance ''onGUI'' example_module) = None \<and>
   snd (beginFunctionCall_env example_instance ''onGUI'' example_module) = example_module \<and>
   beginFunctionCall 1 1 ''awake'' example_module = Inr (None, example_module) \<and>
   (\<exists>fc t'. beginFunctionCall 1 0 ''update'' example_module = Inr (Some fc, t'))"
proof -
  have h: "map_of (m_scripts example_module) 1 = Some example_component \<and> (0::int) \<le> 1 \<and>
      1 < int (length (ScriptComponent.m_scripts example_component)) \<and>
      \<not> is_in_progress (m_function_call example_module)"
    by (simp add: example_defs)
  have h0: "map_of (m_scripts example_module) 1 = Some example_component \<and> (0::int) \<le> 0 \<and>
      0 < int (length (ScriptComponent.m_scripts example_component)) \<and>
      \<not> is_in_progress (m_function_call example_module)"
    by (simp add: example_defs)
  have m: "m_script_module example_instance =
      Some \<lparr>sections = [(''a.as'', ''void awake() {}'')],
            module_functions = [''awake'', ''update'']\<rparr>"
    by (simp add: example_defs)
  have c: "m_script_context example_instance \<noteq> None" by (simp add: example_defs)
  have f: "fst (beginFunctionCall_env example_instance ''onGUI'' example_module) = None"
    using beginFunctionCall_null_exactly [of example_instance "''onGUI''" example_module] m
    by simp
  have i1: "ScriptComponent.m_scripts example_component ! nat 1 =
      (ScriptInstance_new 1)\<lparr>m_flags := NONE\<rparr>"
    by (simp add: example_defs)
  have i0: "ScriptComponent.m_scripts example_component ! nat 0 = example_instance"
    by (simp add: example_defs)
  show ?thesis
    using f beginFunctionCall_null_exactly [of example_instance "''onGUI''" example_module
        example_module 1 example_component 1 "''awake''"]
      beginFunctionCall_null_exactly [of example_instance "''onGUI''" example_module
        example_module 1 example_component 0 "''update''"] h h0 m c
    apply (simp only: i0 i1)
    apply (simp add: ScriptInstance_new_def GetModule_def CreateContext_def)
    by (metis option.exhaust)
qed

lemma add_in_progress:
  "is_in_progress (m_function_call ((FunctionCall_add ^^ n) s)) = is_in_progress (m_function_call s)"
  by (induction n) (simp_all add: FunctionCall_add_def)

lemma begin_call_cases:
  assumes "\<not> is_in_progress (m_function_call s)"
  shows "(\<exists>e. begin_call t f s = Inl e \<and> e \<noteq> ASSERT_in_progress \<and> e \<noteq> ASSERT_not_in_progress) \<or>
         begin_call t f s = Inr (None, s) \<or>
         (\<exists>fc s'. begin_call t f s = Inr (Some fc, s') \<and> is_in_progress (m_function_call s'))"
proof (cases t)
  case (Slot e i)
  show ?thesis
  proof (cases "map_of (m_scripts s) e")
    case None
    with assms Slot show ?thesis by (simp add: beginFunctionCall_def)
  next
    case (Some cmp)
    show ?thesis
    proof (cases "Array_at (ScriptComponent.m_scripts cmp) i")
      case (Inl err)
      then have "err = Array_index_out_of_bounds"
        by (simp add: Array_at_def split: if_splits)
      with assms Slot Some Inl show ?thesis by (simp add: beginFunctionCall_def)
    next
      case (Inr inst)
      from beginFunctionCall_env_cases [of inst f s] assms Slot Some Inr
      show ?thesis
        by (cases "beginFunctionCall_env inst f s") (auto simp: beginFunctionCall_def)
    qed
  qed
next
  case (Inline e)
  show ?thesis
  proof (cases "map_of (m_inline_scripts s) e")
    case None
    with assms Inline show ?thesis by (simp add: beginFunctionCallInlineScript_def)
  next
    case (Some inl)
    from beginFunctionCall_env_cases [of inl f s] assms Inline Some
    show ?thesis
      by (cases "beginFunctionCall_env inl f s") (auto simp: beginFunctionCallInlineScript_def)
  qed
qed

lemma guarded_call_ok:
  assumes "\<not> is_in_progress (m_function_call s)"
  shows "guarded_call c s \<noteq> Inl ASSERT_in_progress \<and>
         guarded_call c s \<noteq> Inl ASSERT_not_in_progress \<and>
         (\<forall>s'. guarded_call c s = Inr s' \<longrightarrow> \<not> is_in_progress (m_function_call s'))"
proof -
  obtain t f n where c: "c = (t, f, n)" by (cases c)
  from begin_call_cases [OF assms, of t f] show ?thesis
    using assms c
    by (auto simp: guarded_call_def endFunctionCall_def add_in_progress)
qed

lemma run_calls_ok:
  "\<not> is_in_progress (m_function_call s) \<Longrightarrow>
     run_calls cs s \<noteq> Inl ASSERT_in_progress \<and> run_calls cs s \<noteq> Inl ASSERT_not_in_progress \<and>
     (\<forall>s'. run_calls cs s = Inr s' \<longrightarrow> \<not> is_in_progress (m_function_call s'))"
proof (induction cs arbitrary: s)
  case Nil
  then show ?case by simp
next
  case (Cons c cs)
  from guarded_call_ok [OF Cons.prems, of c] Cons.IH show ?case
    by (cases "guarded_call c s") auto
qed

text \<open>
  C6. While a call is in progress, \<open>beginFunctionCall\<close> and
  \<open>beginFunctionCallInlineScript\<close> fail their assertion; with no call in progress,
  \<open>endFunctionCall\<close> fails its assertion. A sequence of calls made the way the callers
  make them (\<open>endFunctionCall\<close> only after a \<open>beginFunctionCall\<close> that returned a handle,
  any number of \<open>add\<close>s in between), started with no call in progress, never fails
  either assertion and ends with no call in progress.
\<close>

theorem function_call_assertions:
  "(is_in_progress (m_function_call s1) \<longrightarrow>
      beginFunctionCall e i f s1 = Inl ASSERT_not_in_progress \<and>
      beginFunctionCallInlineScript e f s1 = Inl ASSERT_not_in_progress) \<and>
   (\<not> is_in_progress (m_function_call s2) \<longrightarrow> endFunctionCall s2 = Inl ASSERT_in_progress) \<and>
   (\<not> is_in_progress (m_function_call s3) \<longrightarrow>
      run_calls cs s3 \<noteq> Inl ASSERT_in_progress \<and>
      run_calls cs s3 \<noteq> Inl ASSERT_not_in_progress \<and>
      (\<forall>s'. run_calls cs s3 = Inr s' \<longrightarrow> \<not> is_in_progress (m_function_call s')))"
proof (intro conjI impI)
  assume "is_in_progress (m_function_call s1)"
  then show "beginFunctionCall e i f s1 = Inl ASSERT_not_in_progress"
    and "beginFunctionCallInlineScript e f s1 = Inl ASSERT_not_in_progress"
    by (simp_all add: beginFunctionCall_def beginFunctionCallInlineScript_def)
next
  assume "\<not> is_in_progress (m_function_call s2)"
  then show "endFunctionCall s2 = Inl ASSERT_in_progress"
    by (simp add: endFunctionCall_def)
next
  assume a: "\<not> is_in_progress (m_function_call s3)"
  from run_calls_ok [OF a, of cs]
  show "run_calls cs s3 \<noteq> Inl ASSERT_in_progress"
    and "run_calls cs s3 \<noteq> Inl ASSERT_not_in_progress"
    and "\<forall>s'. run_calls cs s3 = Inr s' \<longrightarrow> \<not> is_in_progress (m_function_call s')"
    by simp_all
qed

theorem function_call_assertions_witness:
  "beginFunctionCall 1 0 ''update'' busy_module = Inl ASSERT_not_in_progress \<and>
   beginFunctionCallInlineScript 2 ''main'' busy_module = Inl ASSERT_not_in_progress \<and>
   endFunctionCall example_module = Inl ASSERT_in_progress \<and>
   (\<exists>s'. run_calls example_calls example_module = Inr s' \<and>
         \<not> is_in_progress (m_function_call s'))"
proof -
  have b: "is_in_progress (m_function_call busy_module)"
    by (simp add: busy_module_def)
  have n: "\<not> is_in_progress (m_function_call example_module)"
    by (simp add: example_defs)
  have r: "\<exists>s'. run_calls example_calls example_module = Inr s'"
    by (simp add: example_calls_def guarded_call_def beginFunctionCall_def
        beginFunctionCallInlineScript_def beginFunctionCall_env_def endFunctionCall_def
        FunctionCall_add_def Array_at_def GetFunctionByName_def example_defs Let_def
        numeral_2_eq_2)
  from function_call_assertions [of busy_module 1 0 "''update''" example_module example_module
      example_calls] b n
  have 1: "beginFunctionCall 1 0 ''update'' busy_module = Inl ASSERT_not_in_progress"
    and 3: "endFunctionCall example_module = Inl ASSERT_in_progress"
    and 4: "\<forall>s'. run_calls example_calls example_module = Inr s' \<longrightarrow>
              \<not> is_in_progress (m_function_call s')"
    by simp_all
  from function_call_assertions [of busy_module 2 0 "''main''" example_module example_module
      example_calls] b
  have 2: "beginFunctionCallInlineScript 2 ''main'' busy_module = Inl ASSERT_not_in_progress"
    by simp
  from 1 2 3 4 r show ?thesis by blast
qed

section \<open>Instance life cycle: results\<close>

lemma onScriptLoaded_failure:
  assumes "m_script inst = Some p"
    and "AddScriptSection_code engine p (source_code rm p) < 0 \<or>
         Build_code engine [(p, source_code rm p)] < 0"
  shows "m_flags (onScriptLoaded engine rm inst) = m_flags inst"
    and "m_script_context (onScriptLoaded engine rm inst) = m_script_context inst"
  using assms
  by (auto simp: onScriptLoaded_def AddScriptSection_def Build_def GetModule_def Let_def)

text \<open>
  C2 (amended). When the resource of an instance is \<open>READY\<close> and its source fails to
  compile (\<open>AddScriptSection\<close> or \<open>Build\<close> returns a negative value), \<open>onScriptLoaded\<close>
  leaves the flags as they were and does not invoke \<open>awake\<close> (the context is
  untouched). So \<open>LOADED\<close> stays unset when it was unset before the call.
\<close>

theorem onScriptLoaded_build_failure:
  "m_script inst = Some p \<and>
   (AddScriptSection_code engine p (source_code rm p) < 0 \<or>
    Build_code engine [(p, source_code rm p)] < 0) \<longrightarrow>
     m_flags (onScriptLoaded engine rm inst) = m_flags inst \<and>
     m_script_context (onScriptLoaded engine rm inst) = m_script_context inst \<and>
     (m_flags inst AND LOADED = 0 \<longrightarrow> m_flags (onScriptLoaded engine rm inst) AND LOADED = 0)"
  using onScriptLoaded_failure [of inst p engine rm] by simp

text \<open>An instance that was \<open>LOADED\<close> and whose new source fails to build is still
  \<open>LOADED\<close> afterwards.\<close>

theorem onScriptLoaded_reload_counterexample:
  "m_script stale_instance = Some ''bad.as'' \<and>
   Build_code example_engine [(''bad.as'', source_code example_rm ''bad.as'')] < 0 \<and>
   m_flags stale_instance AND LOADED \<noteq> 0 \<and>
   m_flags (onScriptLoaded example_engine example_rm stale_instance) AND LOADED \<noteq> 0"
  by (simp add: stale_instance_def example_instance_def example_engine_def example_rm_def
      onScriptLoaded_def AddScriptSection_def Build_def GetModule_def Let_def
      LOADED_def ENABLED_def)

theorem onScriptLoaded_build_failure_witness:
  "m_script fresh_bad_instance = Some ''bad.as'' \<and>
   Build_code example_engine [(''bad.as'', source_code example_rm ''bad.as'')] < 0 \<and>
   m_flags fresh_bad_instance AND LOADED = 0 \<and>
   m_flags (onScriptLoaded example_engine example_rm fresh_bad_instance) AND LOADED = 0 \<and>
   m_script_context (onScriptLoaded example_engine example_rm fresh_bad_instance) =
     Some \<lparr>executed = []\<rparr>"
proof -
  have 1: "m_script fresh_bad_instance = Some ''bad.as''"
    by (simp add: fresh_bad_instance_def)
  have 2: "Build_code example_engine [(''bad.as'', source_code example_rm ''bad.as'')] < 0"
    by (simp add: example_engine_def example_rm_def)
  have 3: "m_flags fresh_bad_instance AND LOADED = 0"
    by (simp add: fresh_bad_instance_def ScriptInstance_new_def NONE_def ENABLED_def LOADED_def)
  have 4: "m_script_context fresh_bad_instance = Some \<lparr>executed = []\<rparr>"
    by (simp add: fresh_bad_instance_def ScriptInstance_new_def CreateContext_def)
  from onScriptLoaded_build_failure [of fresh_bad_instance "''bad.as''" example_engine example_rm]
    1 2 3 4
  show ?thesis by simp
qed

lemma apply_op_context:
  "m_script_context inst \<noteq> None \<Longrightarrow> m_script_context (apply_op engine op inst) \<noteq> None"
  by (cases op)
     (auto simp: onScriptLoaded_def onScriptUnloaded_def execute_instance_def Let_def
           split: option.splits prod.splits)

lemma apply_op_module:
  "m_script_module inst \<noteq> None \<Longrightarrow> op \<noteq> OnScriptUnloaded \<Longrightarrow>
     m_script_module (apply_op engine op inst) \<noteq> None"
  by (cases op)
     (auto simp: onScriptLoaded_def execute_instance_def Let_def
           split: option.splits prod.splits)

lemma run_ops_context:
  "m_script_context inst \<noteq> None \<Longrightarrow> m_script_context (run_ops engine ops inst) \<noteq> None"
proof (induction ops arbitrary: inst)
  case Nil
  then show ?case by simp
next
  case (Cons op ops)
  from Cons.prems have "m_script_context (apply_op engine op inst) \<noteq> None"
    by (rule apply_op_context)
  then have "m_script_context (run_ops engine ops (apply_op engine op inst)) \<noteq> None"
    by (rule Cons.IH)
  then show ?case by simp
qed

lemma run_ops_module:
  "m_script_module inst \<noteq> None \<Longrightarrow> OnScriptUnloaded \<notin> set ops \<Longrightarrow>
     m_script_module (run_ops engine ops inst) \<noteq> None"
proof (induction ops arbitrary: inst)
  case Nil
  then show ?case by simp
next
  case (Cons op ops)
  from Cons.prems have "op \<noteq> OnScriptUnloaded" and rest: "OnScriptUnloaded \<notin> set ops"
    by auto
  with Cons.prems have "m_script_module (apply_op engine op inst) \<noteq> None"
    by (intro apply_op_module)
  then have "m_script_module (run_ops engine ops (apply_op engine op inst)) \<noteq> None"
    using rest by (rule Cons.IH)
  then show ?case by simp
qed

lemma onScriptLoaded_module:
  "m_script inst \<noteq> None \<Longrightarrow> m_script_module (onScriptLoaded engine rm inst) \<noteq> None"
  by (auto simp: onScriptLoaded_def Let_def split: option.splits prod.splits)

text \<open>
  C4 (amended). Through every sequence of operations on a constructed instance the
  context handle stays non-null. The module handle stays non-null as long as no
  \<open>onScriptUnloaded\<close> occurs; \<open>onScriptUnloaded\<close> sets it to null, and the next
  \<open>onScriptLoaded\<close> with a linked resource makes it non-null again.
\<close>

theorem handles_lifetime:
  "m_script_context (run_ops engine ops (ScriptInstance_new n)) \<noteq> None \<and>
   (OnScriptUnloaded \<notin> set ops \<longrightarrow>
      m_script_module (run_ops engine ops (ScriptInstance_new n)) \<noteq> None) \<and>
   m_script_module (onScriptUnloaded inst) = None \<and>
   (m_script inst \<noteq> None \<longrightarrow> m_script_module (onScriptLoaded engine rm inst) \<noteq> None)"
proof (intro conjI impI)
  show "m_script_context (run_ops engine ops (ScriptInstance_new n)) \<noteq> None"
    by (rule run_ops_context) (simp add: ScriptInstance_new_def)
next
  assume "OnScriptUnloaded \<notin> set ops"
  then show "m_script_module (run_ops engine ops (ScriptInstance_new n)) \<noteq> None"
    by (intro run_ops_module) (simp_all add: ScriptInstance_new_def)
next
  show "m_script_module (onScriptUnloaded inst) = None"
    by (simp add: onScriptUnloaded_def Let_def split: option.splits)
next
  assume "m_script inst \<noteq> None"
  then show "m_script_module (onScriptLoaded engine rm inst) \<noteq> None"
    by (rule onScriptLoaded_module)
qed

theorem handles_lifetime_witness:
  "OnScriptUnloaded \<notin> set example_ops \<and>
   m_script_context (run_ops example_engine example_ops (ScriptInstance_new 0)) \<noteq> None \<and>
   m_script_module (run_ops example_engine example_ops (ScriptInstance_new 0)) \<noteq> None \<and>
   m_script example_instance \<noteq> None \<and>
   m_script_module (onScriptLoaded example_engine example_rm example_instance) \<noteq> None"
proof -
  have 1: "OnScriptUnloaded \<notin> set example_ops" by (simp add: example_ops_def)
  have 2: "m_script example_instance \<noteq> None" by (simp add: example_instance_def)
  from handles_lifetime [of example_engine example_ops 0 example_instance example_rm] 1 2
  show ?thesis by simp
qed

text \<open>After a resource unload the module handle of a constructed instance is null.\<close>

theorem module_handle_counterexample:
  "m_script_module (run_ops example_engine [OnScriptUnloaded] (ScriptInstance_new 0)) = None"
  by (simp add: onScriptUnloaded_def ScriptInstance_new_def Let_def)

section \<open>Slot indices and properties: results\<close>

lemma HashMap_at_Some: "map_of m k = Some v \<Longrightarrow> HashMap_at m k = Inr v"
  by (simp add: HashMap_at_def)

lemma Array_at_in_range:
  "0 \<le> i \<Longrightarrow> i < int (length xs) \<Longrightarrow> Array_at xs i = Inr (xs ! nat i)"
  by (simp add: Array_at_def)

lemma Array_at_out_of_range:
  "i < 0 \<or> int (length xs) \<le> i \<Longrightarrow> Array_at xs i = Inl Array_index_out_of_bounds"
  by (auto simp: Array_at_def)

text \<open>
  C9 (amended). For an entity with a script component, \<open>setScriptPath\<close> with a slot index
  at or beyond the slot count returns at its guard and leaves the module as it was: it
  is a silent no-op, not an assertion. The per-slot operations that index the slot
  array directly (\<open>isScriptEnabled\<close>, \<open>enableScript\<close>, \<open>getScriptPath\<close>) fail the bounds
  check of the array on an out-of-range index.
\<close>

theorem slot_index_out_of_range:
  "(map_of (m_scripts s) e = Some script_cmp \<and>
    int (length (ScriptComponent.m_scripts script_cmp)) \<le> i \<longrightarrow>
      setScriptPath engine e i p s = Inr s) \<and>
   (map_of (m_scripts t) e' = Some script_cmp' \<and>
    (j < 0 \<or> int (length (ScriptComponent.m_scripts script_cmp')) \<le> j) \<longrightarrow>
      isScriptEnabled e' j t = Inl Array_index_out_of_bounds \<and>
      enableScript e' j b t = Inl Array_index_out_of_bounds \<and>
      getScriptPath e' j t = Inl Array_index_out_of_bounds)"
  by (auto simp: setScriptPath_def isScriptEnabled_def enableScript_def getScriptPath_def
        HashMap_at_Some Array_at_out_of_range)

theorem slot_index_out_of_range_witness:
  "setScriptPath example_engine 1 2 ''b.as'' example_module = Inr example_module \<and>
   isScriptEnabled 1 2 example_module = Inl Array_index_out_of_bounds \<and>
   enableScript 1 (- 1) False example_module = Inl Array_index_out_of_bounds \<and>
   getScriptPath 1 2 example_module = Inl Array_index_out_of_bounds"
proof -
  have m: "map_of (m_scripts example_module) 1 = Some example_component"
    by (simp add: example_module_def AngelScriptModuleImpl_new_def)
  have l: "int (length (ScriptComponent.m_scripts example_component)) \<le> 2"
    by (simp add: example_component_def)
  from slot_index_out_of_range [of example_module 1 example_component 2 example_engine "''b.as''"
      example_module 1 example_component 2 False] m l
  have a: "setScriptPath example_engine 1 2 ''b.as'' example_module = Inr example_module"
    and b: "isScriptEnabled 1 2 example_module = Inl Array_index_out_of_bounds"
    and c: "getScriptPath 1 2 example_module = Inl Array_index_out_of_bounds"
    by simp_all
  from slot_index_out_of_range [of example_module 1 example_component 2 example_engine "''b.as''"
      example_module 1 example_component "- 1" False] m
  have d: "enableScript 1 (- 1) False example_module = Inl Array_index_out_of_bounds"
    by simp
  from a b c d show ?thesis by simp
qed

text \<open>\<open>setScriptPath\<close> on slot 5 of a component with two slots returns normally with
  the module unchanged.\<close>

theorem setScriptPath_silent_counterexample:
  "map_of (m_scripts example_module) 1 = Some example_component \<and>
   length (ScriptComponent.m_scripts example_component) = 2 \<and>
   setScriptPath example_engine 1 5 ''b.as'' example_module = Inr example_module"
  by (simp add: setScriptPath_def HashMap_at_def example_module_def example_component_def
        AngelScriptModuleImpl_new_def)

lemma find_property_None: "find_property h props = None \<longleftrightarrow> find (\<lambda>prop. name_hash prop = h) props = None"
  by (induction props) auto

lemma find_property_Some:
  "find_property h props = Some k \<Longrightarrow>
     k < length props \<and> find (\<lambda>prop. name_hash prop = h) props = Some (props ! k)"
  by (induction props arbitrary: k) (auto split: if_splits)

lemma getPropertyValue_result:
  assumes "map_of (m_scripts s) e = Some script_cmp" "0 \<le> i"
    "i < int (length (ScriptComponent.m_scripts script_cmp))" "0 < n"
  shows "getPropertyValue hash e i name n s =
     Inr (case find (\<lambda>prop. name_hash prop = hash name)
                 (m_properties (ScriptComponent.m_scripts script_cmp ! nat i)) of
            Some prop \<Rightarrow> copyString n (stored_value prop)
          | None \<Rightarrow> [], s)"
proof (cases "find_property (hash name) (m_properties (ScriptComponent.m_scripts script_cmp ! nat i))")
  case None
  with assms find_property_None [of "hash name" "m_properties (ScriptComponent.m_scripts script_cmp ! nat i)"]
  show ?thesis
    by (simp add: getPropertyValue_def HashMap_at_Some Array_at_in_range Let_def)
next
  case (Some k)
  with assms find_property_Some [OF Some]
  show ?thesis
    by (simp add: getPropertyValue_def HashMap_at_Some Array_at_in_range Let_def)
qed

lemma map_of_update_same: "map_of (AList.update k v al) k = Some v"
  by (simp add: update_conv')

lemma setPropertyValue_new:
  assumes m: "map_of (m_scripts s) e = Some script_cmp" and i0: "0 \<le> i"
    and il: "i < int (length (ScriptComponent.m_scripts script_cmp))"
    and nf: "find (\<lambda>prop. name_hash prop = hash name)
                 (m_properties (ScriptComponent.m_scripts script_cmp ! nat i)) = None"
  shows "\<exists>s'. setPropertyValue hash e i name val s = Inr s' \<and>
     slot_properties e i s' =
       Inr (m_properties (ScriptComponent.m_scripts script_cmp ! nat i)
            @ [\<lparr>name_hash = hash name, type = ANY, stored_value = val\<rparr>])"
proof -
  let ?inst = "ScriptComponent.m_scripts script_cmp ! nat i"
  from nf have fp: "find_property (hash name) (m_properties ?inst) = None"
    by (simp add: find_property_None)
  from i0 il have ni: "nat i < length (ScriptComponent.m_scripts script_cmp)" by simp
  show ?thesis
    using m i0 il fp ni
    by (simp add: setPropertyValue_def getScriptProperty_def slot_properties_def
          HashMap_at_def Array_at_def Let_def update_conv')
qed

text \<open>
  C10. For an entity with a script component, a valid slot index and a non-empty output
  buffer, \<open>getPropertyValue\<close> writes the stored value of the first property whose name
  hash matches (through \<open>copyString\<close>, which gives the value itself when it fits the
  buffer) and the empty string when there is none; the module, and so the property
  list, is unchanged. \<open>setPropertyValue\<close> on a name with no property appends one with
  that hash, type \<open>ANY\<close> and the value.
\<close>

theorem getPropertyValue_reads_only:
  "(map_of (m_scripts s) e = Some script_cmp \<and> 0 \<le> i \<and>
    i < int (length (ScriptComponent.m_scripts script_cmp)) \<and> 0 < n \<longrightarrow>
      getPropertyValue hash e i name n s =
        Inr (case find (\<lambda>prop. name_hash prop = hash name)
                    (m_properties (ScriptComponent.m_scripts script_cmp ! nat i)) of
               Some prop \<Rightarrow> copyString n (stored_value prop)
             | None \<Rightarrow> [], s)) \<and>
   (length v < n \<longrightarrow> copyString n v = v) \<and>
   (map_of (m_scripts t) e' = Some script_cmp' \<and> 0 \<le> j \<and>
    j < int (length (ScriptComponent.m_scripts script_cmp')) \<and>
    find (\<lambda>prop. name_hash prop = hash name')
         (m_properties (ScriptComponent.m_scripts script_cmp' ! nat j)) = None \<longrightarrow>
      (\<exists>t'. setPropertyValue hash e' j name' val t = Inr t' \<and>
         slot_properties e' j t' =
           Inr (m_properties (ScriptComponent.m_scripts script_cmp' ! nat j)
                @ [\<lparr>name_hash = hash name', type = ANY, stored_value = val\<rparr>])))"
proof (intro conjI impI)
  assume "map_of (m_scripts s) e = Some script_cmp \<and> 0 \<le> i \<and>
    i < int (length (ScriptComponent.m_scripts script_cmp)) \<and> 0 < n"
  then show "getPropertyValue hash e i name n s =
        Inr (case find (\<lambda>prop. name_hash prop = hash name)
                    (m_properties (ScriptComponent.m_scripts script_cmp ! nat i)) of
               Some prop \<Rightarrow> copyString n (stored_value prop)
             | None \<Rightarrow> [], s)"
    by (intro getPropertyValue_result) simp_all
next
  assume "length v < n"
  then show "copyString n v = v" by (simp add: copyString_def)
next
  assume "map_of (m_scripts t) e' = Some script_cmp' \<and> 0 \<le> j \<and>
    j < int (length (ScriptComponent.m_scripts script_cmp')) \<and>
    find (\<lambda>prop. name_hash prop = hash name')
         (m_properties (ScriptComponent.m_scripts script_cmp' ! nat j)) = None"
  then show "\<exists>t'. setPropertyValue hash e' j name' val t = Inr t' \<and>
         slot_properties e' j t' =
           Inr (m_properties (ScriptComponent.m_scripts script_cmp' ! nat j)
                @ [\<lparr>name_hash = hash name', type = ANY, stored_value = val\<rparr>])"
    by (intro setPropertyValue_new) simp_all
qed

theorem getPropertyValue_reads_only_witness:
  "getPropertyValue example_hash 1 0 ''speed'' 8 example_module = Inr (''5'', example_module) \<and>
   getPropertyValue example_hash 1 0 ''mass'' 8 example_module = Inr ([], example_module) \<and>
   copyString 8 ''5'' = ''5'' \<and>
   (\<exists>t'. setPropertyValue example_hash 1 0 ''mass'' ''2'' example_module = Inr t' \<and>
      slot_properties 1 0 t' =
        Inr [\<lparr>name_hash = 5, type = ANY, stored_value = ''5''\<rparr>,
             \<lparr>name_hash = 4, type = ANY, stored_value = ''2''\<rparr>])"
proof -
  have m: "map_of (m_scripts example_module) 1 = Some example_component"
    by (simp add: example_module_def AngelScriptModuleImpl_new_def)
  have l: "(0::int) < int (length (ScriptComponent.m_scripts example_component))"
    by (simp add: example_component_def)
  have p: "m_properties (ScriptComponent.m_scripts example_component ! 0) =
      [\<lparr>name_hash = 5, type = ANY, stored_value = ''5''\<rparr>]"
    by (simp add: example_component_def example_instance_def)
  have h1: "example_hash ''speed'' = 5" and h2: "example_hash ''mass'' = 4"
    by (simp_all add: example_hash_def)
  have f: "find (\<lambda>prop. name_hash prop = example_hash ''mass'')
         (m_properties (ScriptComponent.m_scripts example_component ! nat 0)) = None"
    by (simp add: p h2)
  from getPropertyValue_reads_only [of example_module 1 example_component 0 8 example_hash
      "''speed''" "''5''" example_module 1 example_component 0 "''mass''" "''2''"] m l f
  have a: "getPropertyValue example_hash 1 0 ''speed'' 8 example_module = Inr (''5'', example_module)"
    and c: "copyString 8 ''5'' = ''5''"
    and d: "\<exists>t'. setPropertyValue example_hash 1 0 ''mass'' ''2'' example_module = Inr t' \<and>
      slot_properties 1 0 t' =
        Inr [\<lparr>name_hash = 5, type = ANY, stored_value = ''5''\<rparr>,
             \<lparr>name_hash = 4, type = ANY, stored_value = ''2''\<rparr>]"
    by (simp_all add: p h1 h2 copyString_def)
  from getPropertyValue_reads_only [of example_module 1 example_component 0 8 example_hash
      "''mass''" "''5''" example_module 1 example_component 0 "''mass''" "''2''"] m l
  have b: "getPropertyValue example_hash 1 0 ''mass'' 8 example_module = Inr ([], example_module)"
    by (simp add: p h2)
  from a b c d show ?thesis by simp
qed

section \<open>Serialization: the write order\<close>

lemmas write_defs = write_size_def write_entity_def write_String_def writeString_def
  write_flags_def write_hash_def write_type_def

lemma serialize_properties_items:
  "serialize_properties props out = out @ concat (map property_items props)"
  by (induction props arbitrary: out) (simp_all add: write_defs property_items_def)

lemma serialize_scripts_items:
  "serialize_scripts scrs out = out @ concat (map slot_items scrs)"
  by (induction scrs arbitrary: out)
     (simp_all add: write_defs slot_items_def serialize_properties_items)

lemma serialize_components_items:
  "serialize_components cmps out = out @ concat (map (\<lambda>kv. component_items (snd kv)) cmps)"
proof (induction cmps arbitrary: out)
  case Nil
  show ?case by simp
next
  case (Cons kv cmps)
  obtain key script_cmp where kv: "kv = (key, script_cmp)" by (cases kv)
  show ?case
    by (simp add: kv Cons.IH write_defs component_items_def serialize_scripts_items)
qed

lemma serialize_inline_items:
  "serialize_inline inls out = out @ concat (map inline_items inls)"
proof (induction inls arbitrary: out)
  case Nil
  show ?case by simp
next
  case (Cons kv inls)
  obtain key inl where kv: "kv = (key, inl)" by (cases kv)
  show ?case by (simp add: kv Cons.IH write_defs inline_items_def)
qed

text \<open>
  C8. \<open>serialize\<close> appends to the stream exactly, in order: the inline-script count,
  then per inline component its entity and its source; then the script-component count,
  then per component its entity, its slot count, and per slot the resource path (empty
  when no resource is linked), the flag set, the property count, and per property the
  name hash, the type tag and the stored text.
\<close>

theorem serialize_write_order:
  "serialize s out = out @ write_order s"
  by (simp add: serialize_def write_order_def write_size_def serialize_components_items
        serialize_inline_items)

section \<open>Script resource: results\<close>







section \<open>Setting a script path twice\<close>

lemma onScriptLoaded_m_script [simp]:
  "m_script (onScriptLoaded engine rm inst) = m_script inst"
  by (simp add: onScriptLoaded_def Let_def split: option.splits prod.splits)




lemma notify_length [simp]:
  "length (ScriptComponent.m_scripts (ScriptComponent_onScriptLoaded engine rm old new p cmp)) =
   length (ScriptComponent.m_scripts cmp)"
  by (simp add: ScriptComponent_onScriptLoaded_def)

lemma notify_entity [simp]:
  "ScriptComponent.m_entity (ScriptComponent_onScriptLoaded engine rm old new p cmp) =
   ScriptComponent.m_entity cmp"
  by (simp add: ScriptComponent_onScriptLoaded_def)

lemma notify_ready_m_script [simp]:
  "map m_script (ScriptComponent.m_scripts (ScriptComponent_onScriptLoaded engine rm old READY p cmp)) =
   map m_script (ScriptComponent.m_scripts cmp)"
  by (simp add: ScriptComponent_onScriptLoaded_def)














section \<open>Serialization round trip\<close>






lemma ENABLED_after_LOADED: "(f OR LOADED) AND ENABLED = f AND (ENABLED :: 32 word)"
proof -
  have "LOADED AND ENABLED = (0 :: 32 word)"
    by (simp add: LOADED_def ENABLED_def)
  then show ?thesis
    by (simp add: bit.conj_disj_distrib2)
qed

lemma onScriptLoaded_view [simp]:
  "slot_view (onScriptLoaded engine rm inst) = slot_view inst"
proof (cases "m_script inst")
  case None
  then show ?thesis by (simp add: onScriptLoaded_def)
next
  case (Some p)
  obtain r m1 where a: "AddScriptSection engine p (source_code rm p) GetModule = (r, m1)"
    by (cases "AddScriptSection engine p (source_code rm p) GetModule")
  obtain r' m2 where b: "Build engine m1 = (r', m2)" by (cases "Build engine m1")
  show ?thesis
    using Some a b
    by (simp add: onScriptLoaded_def slot_view_def Let_def ENABLED_after_LOADED
          split: option.splits)
qed

lemma notify_ready_view [simp]:
  "map slot_view (ScriptComponent.m_scripts (ScriptComponent_onScriptLoaded engine rm old READY p cmp)) =
   map slot_view (ScriptComponent.m_scripts cmp)"
  by (simp add: ScriptComponent_onScriptLoaded_def)























end
